theory Spec2Isabelle
  imports Complex_Main
begin

section \<open>The runtime's numbers\<close>

text \<open>
  The payment panel (\<^verbatim>\<open>MakeAPaymentPanel\<close>) calls two built-ins of the JavaScript
  runtime on the amount the user typed: \<^verbatim>\<open>parseInt(e.target.value, 10)\<close> in
  \<^verbatim>\<open>handleUSDChange\<close> and \<^verbatim>\<open>(+usd).toFixed(2)\<close> in \<^verbatim>\<open>submitForm\<close> and
  \<^verbatim>\<open>payment\<close>. They are modelled after ECMAScript (StringToNumber, parseInt,
  Number.prototype.toFixed, Number::toString). A Number is NaN, an infinity, or a finite
  double given by its exact rational value; the two zeros are not distinguished, since
  neither \<^verbatim>\<open>toFixed\<close> nor \<^verbatim>\<open>>=\<close> tells them apart. Conversions round to the
  nearest double, ties to even, as the engines do for literals of any length. A character
  stands for a code unit below 256. Magnitudes are integers of type \<open>int\<close>.
\<close>

datatype number = NaN | PosInfinity | NegInfinity | Finite rat

function ilog2 :: "int \<Rightarrow> nat" where
  "ilog2 n = (if n < 2 then 0 else Suc (ilog2 (n div 2)))"
  by pat_completeness auto
termination
  by (relation "measure nat") auto

declare ilog2.simps [simp del]

definition pow2 :: "int \<Rightarrow> rat" where
  "pow2 e = (if 0 \<le> e then 2 ^ nat e else 1 / 2 ^ nat (- e))"

definition pow10 :: "int \<Rightarrow> rat" where
  "pow10 e = (if 0 \<le> e then 10 ^ nat e else 1 / 10 ^ nat (- e))"

text \<open>
  \<open>ilog2 n\<close> is the integer part of the binary logarithm of \<open>n \<ge> 1\<close>, and
  \<open>binaryExponent a\<close> the \<open>e\<close> with \<open>2 ^ e \<le> a < 2 ^ (e + 1)\<close>, for \<open>a > 0\<close>.
\<close>

definition binaryExponent :: "rat \<Rightarrow> int" where
  "binaryExponent a =
     (if 1 \<le> a then int (ilog2 \<lfloor>a\<rfloor>)
      else let y = 1 / a; n = ilog2 \<lfloor>y\<rfloor>
           in if y = 2 ^ n then - int n else - int n - 1)"

text \<open>
  The double nearest to a rational: 53 significant bits for a normal number, a multiple of
  \<open>2 ^ - 1074\<close> below \<open>2 ^ - 1022\<close>, an infinity from \<open>2 ^ 1024\<close> on.
\<close>

definition roundTiesToEven :: "rat \<Rightarrow> int" where
  "roundTiesToEven x =
     (let f = \<lfloor>x\<rfloor>; d = x - of_int f
      in if d < 1 / 2 then f else if 1 / 2 < d then f + 1
         else if even f then f else f + 1)"

definition toDouble :: "rat \<Rightarrow> number" where
  "toDouble r =
     (if r = 0 then Finite 0
      else let a = \<bar>r\<bar>;
               e = binaryExponent a;
               q = (if e < - 1022 then - 1074 else e - 52);
               v = of_int (roundTiesToEven (a / pow2 q)) * pow2 q
           in if pow2 1024 \<le> v then (if r < 0 then NegInfinity else PosInfinity)
              else Finite (if r < 0 then - v else v))"

text \<open>
  StringToNumber, the unary \<^verbatim>\<open>+\<close> on a string: white space is trimmed, the empty
  string is 0, a literal that is no StrNumericLiteral is NaN.
\<close>

definition isStrWhiteSpaceChar :: "char \<Rightarrow> bool" where
  "isStrWhiteSpaceChar c = (of_char c \<in> {9, 10, 11, 12, 13, 32, 160 :: int})"

definition trimStart :: "string \<Rightarrow> string" where
  "trimStart s = dropWhile isStrWhiteSpaceChar s"

definition trimString :: "string \<Rightarrow> string" where
  "trimString s = rev (trimStart (rev (trimStart s)))"

definition digitOf :: "int \<Rightarrow> char \<Rightarrow> int option" where
  "digitOf radix c =
     (let n = of_char c;
          v = (if 48 \<le> n \<and> n \<le> 57 then n - 48
               else if 97 \<le> n \<and> n \<le> 122 then n - 87
               else if 65 \<le> n \<and> n \<le> 90 then n - 55
               else radix)
      in if v < radix then Some v else None)"

definition isDigit :: "int \<Rightarrow> char \<Rightarrow> bool" where
  "isDigit radix c = (digitOf radix c \<noteq> None)"

definition digitsValue :: "int \<Rightarrow> string \<Rightarrow> int" where
  "digitsValue radix ds =
     foldl (\<lambda>a c. radix * a + (case digitOf radix c of Some v \<Rightarrow> v | None \<Rightarrow> 0)) 0 ds"

definition decimalDigits :: "string \<Rightarrow> int option" where
  "decimalDigits ds = (if ds \<noteq> [] \<and> list_all (isDigit 10) ds then Some (digitsValue 10 ds) else None)"

definition signedInteger :: "string \<Rightarrow> int option" where
  "signedInteger s =
     (case s of
        [] \<Rightarrow> None
      | c # ds \<Rightarrow>
          if c = CHR ''+'' then decimalDigits ds
          else if c = CHR ''-'' then map_option uminus (decimalDigits ds)
          else decimalDigits s)"

definition exponentPart :: "string \<Rightarrow> int option" where
  "exponentPart s =
     (case s of
        [] \<Rightarrow> Some 0
      | c # r \<Rightarrow> if c = CHR ''e'' \<or> c = CHR ''E'' then signedInteger r else None)"

definition strUnsignedDecimalLiteral :: "string \<Rightarrow> rat option" where
  "strUnsignedDecimalLiteral s =
     (let ip = takeWhile (isDigit 10) s; r = dropWhile (isDigit 10) s
      in case r of
           [] \<Rightarrow> if ip = [] then None else Some (of_int (digitsValue 10 ip))
         | c # r2 \<Rightarrow>
             if c = CHR ''.'' then
               (let fp = takeWhile (isDigit 10) r2; r3 = dropWhile (isDigit 10) r2
                in if ip = [] \<and> fp = [] then None
                   else map_option
                     (\<lambda>e. (of_int (digitsValue 10 ip)
                             + of_int (digitsValue 10 fp) / 10 ^ length fp) * pow10 e)
                     (exponentPart r3))
             else if ip = [] then None
             else map_option (\<lambda>e. of_int (digitsValue 10 ip) * pow10 e) (exponentPart r))"

definition strDecimalLiteral :: "bool \<Rightarrow> string \<Rightarrow> number" where
  "strDecimalLiteral neg u =
     (if u = ''Infinity'' then (if neg then NegInfinity else PosInfinity)
      else case strUnsignedDecimalLiteral u of
             None \<Rightarrow> NaN
           | Some r \<Rightarrow> toDouble (if neg then - r else r))"

definition nonDecimalIntegerLiteral :: "string \<Rightarrow> int option" where
  "nonDecimalIntegerLiteral s =
     (case s of
        c0 # c1 # ds \<Rightarrow>
          (let radix = (if c1 = CHR ''x'' \<or> c1 = CHR ''X'' then 16
                        else if c1 = CHR ''o'' \<or> c1 = CHR ''O'' then 8
                        else if c1 = CHR ''b'' \<or> c1 = CHR ''B'' then 2
                        else 0)
           in if c0 = CHR ''0'' \<and> radix \<noteq> 0 \<and> ds \<noteq> [] \<and> list_all (isDigit radix) ds
              then Some (digitsValue radix ds) else None)
      | _ \<Rightarrow> None)"

definition toNumber :: "string \<Rightarrow> number" where
  "toNumber str =
     (let t = trimString str
      in case t of
           [] \<Rightarrow> Finite 0
         | c # u \<Rightarrow>
             (case nonDecimalIntegerLiteral t of
                Some n \<Rightarrow> toDouble (of_int n)
              | None \<Rightarrow>
                  if c = CHR ''+'' then strDecimalLiteral False u
                  else if c = CHR ''-'' then strDecimalLiteral True u
                  else strDecimalLiteral False t))"

text \<open>
  \<^verbatim>\<open>parseInt(str, 10)\<close>: leading white space and a sign are skipped, the longest
  prefix of decimal digits is read, and no digit at all gives NaN. With the radix given as
  10 no \<^verbatim>\<open>0x\<close> prefix is recognised.
\<close>

definition parseInt10 :: "string \<Rightarrow> number" where
  "parseInt10 str =
     (let S = trimStart str;
          neg = (case S of [] \<Rightarrow> False | c # _ \<Rightarrow> c = CHR ''-'');
          S' = (case S of [] \<Rightarrow> [] | c # r \<Rightarrow> if c = CHR ''+'' \<or> c = CHR ''-'' then r else S);
          Z = takeWhile (isDigit 10) S'
      in if Z = [] then NaN
         else toDouble (of_int (if neg then - digitsValue 10 Z else digitsValue 10 Z)))"

text \<open>
  Number::toString for a finite double from \<open>10 ^ 21\<close> on, which is an integer \<open>N\<close>: the
  fewest digits \<open>s\<close> (at most 17 are needed) such that \<open>s * 10 ^ (n - k)\<close> converts back to
  \<open>N\<close>, the closest such \<open>s\<close>, written in exponential notation.
\<close>

function decimalString :: "int \<Rightarrow> string" where
  "decimalString n =
     (if n < 10 then [''0123456789'' ! nat n]
      else decimalString (n div 10) @ [''0123456789'' ! nat (n mod 10)])"
  by pat_completeness auto
termination
  by (relation "measure nat") auto

declare decimalString.simps [simp del]

fun shortestDigits :: "int \<Rightarrow> nat \<Rightarrow> nat \<Rightarrow> nat \<Rightarrow> (int \<times> nat) option" where
  "shortestDigits N d k 0 = None"
| "shortestDigits N d k (Suc fuel) =
     (let q = 10 ^ (d - k); lo = N div q; hi = lo + 1;
          oklo = (10 ^ (k - 1) \<le> lo \<and> toDouble (of_int (lo * q)) = Finite (of_int N));
          okhi = (hi < 10 ^ k \<and> toDouble (of_int (hi * q)) = Finite (of_int N))
      in if oklo \<and> okhi then
           (if N - lo * q < hi * q - N then Some (lo, k)
            else if hi * q - N < N - lo * q then Some (hi, k)
            else if even lo then Some (lo, k) else Some (hi, k))
         else if oklo then Some (lo, k)
         else if okhi then Some (hi, k)
         else shortestDigits N d (Suc k) fuel)"

definition exponential :: "int \<Rightarrow> nat \<Rightarrow> string" where
  "exponential s n =
     (let ds = decimalString s
      in (if length ds = 1 then ds else take 1 ds @ ''.'' @ drop 1 ds)
         @ ''e+'' @ decimalString (int n - 1))"

definition numberToString :: "int \<Rightarrow> string" where
  "numberToString N =
     (let d = length (decimalString N)
      in if toDouble (10 ^ d) = Finite (of_int N) then exponential 1 (Suc d)
         else case shortestDigits N d 1 17 of
                Some (s, k) \<Rightarrow> exponential s d
              | None \<Rightarrow> exponential N d)"

text \<open>
  \<^verbatim>\<open>x.toFixed(2)\<close>: the integer \<open>n\<close> with \<open>n / 100\<close> closest to \<open>x\<close> (the larger one
  of two), written with two fraction digits.
\<close>

definition toFixed2 :: "number \<Rightarrow> string" where
  "toFixed2 x =
     (case x of
        NaN \<Rightarrow> ''NaN''
      | PosInfinity \<Rightarrow> ''Infinity''
      | NegInfinity \<Rightarrow> ''-Infinity''
      | Finite r \<Rightarrow>
          (let s = (if r < 0 then ''-'' else '''');
               a = (if r < 0 then - r else r)
           in if 10 ^ 21 \<le> a then s @ numberToString \<lfloor>a\<rfloor>
              else let n = \<lfloor>a * 100 + 1 / 2\<rfloor>;
                       m = decimalString n;
                       m' = (if length m \<le> 2 then replicate (3 - length m) CHR ''0'' @ m else m);
                       k = length m'
                   in s @ take (k - 2) m' @ ''.'' @ drop (k - 2) m'))"

text \<open>The comparison \<^verbatim>\<open>x >= y\<close> of a Number with a finite constant; NaN compares false.\<close>

definition numberGE :: "number \<Rightarrow> rat \<Rightarrow> bool" where
  "numberGE x y =
     (case x of NaN \<Rightarrow> False | PosInfinity \<Rightarrow> True | NegInfinity \<Rightarrow> False
      | Finite r \<Rightarrow> y \<le> r)"

section \<open>The payment panel\<close>

subsection \<open>Component state\<close>

text \<open>
  The interface \<^verbatim>\<open>State\<close> of the component. An optional field (\<^verbatim>\<open>success?\<close>,
  \<^verbatim>\<open>successMessage?\<close>, \<^verbatim>\<open>errors?\<close>) is an option, \<open>None\<close> for \<^verbatim>\<open>undefined\<close>.
  An \<^verbatim>\<open>ApiFieldError\<close> is \<^verbatim>\<open>{ field?: string, reason: string }\<close>.
\<close>

datatype paymentType = CREDIT_CARD | PAYPAL

record apiFieldError =
  field :: "string option"
  reason :: string

record state =
  type :: paymentType
  submitting :: bool
  success :: "bool option"
  successMessage :: "string option"
  errors :: "apiFieldError list option"
  usd :: string
  ccv :: string
  showPaypal :: bool
  paymentID :: string
  payerID :: string
  isExecutingPaypalPayment :: bool
  paypalSubmitEnabled :: bool
  dialogOpen :: bool

definition initialState :: state where
  "initialState =
     \<lparr> type = CREDIT_CARD, submitting = False, success = None, successMessage = None,
       errors = None, usd = '''', ccv = '''', showPaypal = False, paymentID = '''',
       payerID = '''', isExecutingPaypalPayment = False, paypalSubmitEnabled = False,
       dialogOpen = False \<rparr>"

subsection \<open>Requests to the gateway\<close>

text \<open>
  The three services of \<^verbatim>\<open>src/services/account\<close> the panel calls, with the arguments
  it passes. A handler returns the new state together with the requests it has sent; the
  \<^verbatim>\<open>then\<close> and \<^verbatim>\<open>catch\<close> continuations of a request are handlers of their own,
  run when the response arrives.
\<close>

datatype call =
    MakePayment (usd_arg: string) (ccv_arg: string)
  | StagePaypalPayment (cancel_url: string) (redirect_url: string) (staged_usd: string)
  | ExecutePaypalPayment (payer_id: string) (payment_id: string)

text \<open>
  \<^verbatim>\<open>pathOr([{ reason: 'Unable to make a payment at this time.' }],
  ['response', 'data', 'errors'], error)\<close>: the rejection is given by what it holds at that
  path, \<open>None\<close> when the path is absent.
\<close>

definition pathOrErrors :: "apiFieldError list option \<Rightarrow> apiFieldError list" where
  "pathOrErrors error =
     (case error of
        None \<Rightarrow> [\<lparr> field = None, reason = ''Unable to make a payment at this time.'' \<rparr>]
      | Some es \<Rightarrow> es)"

subsection \<open>Handlers\<close>

text \<open>
  One definition for each method of the class and for each continuation of a request, in
  the order of the source. A \<^verbatim>\<open>setState\<close> call merges the fields it is given into
  the state; the calls of one handler are applied in order.
\<close>

definition componentDidUpdate :: "bool \<Rightarrow> state \<Rightarrow> state" where
  "componentDidUpdate isScriptLoadSucceed s =
     (if \<not> showPaypal s \<and> isScriptLoadSucceed then s\<lparr> showPaypal := True \<rparr> else s)"

definition handleTypeChange :: "paymentType \<Rightarrow> state \<Rightarrow> state" where
  "handleTypeChange v s = s\<lparr> type := v \<rparr>"

text \<open>The value of an input element is a string, so \<^verbatim>\<open>e.target.value || ''\<close> is the value.\<close>

definition handleUSDChange :: "string \<Rightarrow> state \<Rightarrow> state" where
  "handleUSDChange v s =
     (let amountAsInt = parseInt10 v;
          s1 = (if type s = PAYPAL \<and> numberGE amountAsInt 5
                then s\<lparr> paypalSubmitEnabled := True \<rparr> else s)
      in s1\<lparr> usd := v \<rparr>)"

definition handleCCVChange :: "string \<Rightarrow> state \<Rightarrow> state" where
  "handleCCVChange v s = s\<lparr> ccv := v \<rparr>"

definition submitForm :: "state \<Rightarrow> state \<times> call list" where
  "submitForm s =
     (let errors0 = [];
          errors1 = (if usd s = '''' then
                       errors0 @ [\<lparr> field = Some ''usd'', reason = ''Amount cannot be blank.'' \<rparr>]
                     else errors0);
          errors2 = (if ccv s = '''' then
                       errors1 @ [\<lparr> field = Some ''ccv'', reason = ''CCV cannot be blank.'' \<rparr>]
                     else errors1)
      in if length errors2 \<noteq> 0 then (s\<lparr> errors := Some errors2 \<rparr>, [])
         else (s\<lparr> submitting := True, errors := None, successMessage := Some '''' \<rparr>,
               [MakePayment (toFixed2 (toNumber (usd s))) (ccv s)]))"

definition submitForm_then :: "state \<Rightarrow> state" where
  "submitForm_then s = s\<lparr> submitting := False, success := Some True \<rparr>"

definition submitForm_catch :: "apiFieldError list option \<Rightarrow> state \<Rightarrow> state" where
  "submitForm_catch error s = s\<lparr> submitting := False, errors := Some (pathOrErrors error) \<rparr>"

definition resetForm :: "state \<Rightarrow> state" where
  "resetForm s =
     s\<lparr> errors := None, success := None, usd := '''', ccv := '''', type := CREDIT_CARD \<rparr>"

definition closeDialog :: "state \<Rightarrow> state" where
  "closeDialog s =
     s\<lparr> dialogOpen := False, success := Some True, successMessage := Some ''Payment Cancelled'' \<rparr>"

definition confirmPaypalPayment :: "state \<Rightarrow> state \<times> call list" where
  "confirmPaypalPayment s =
     (s\<lparr> isExecutingPaypalPayment := True \<rparr>,
      [ExecutePaypalPayment (payerID s) (paymentID s)])"

definition confirmPaypalPayment_then :: "state \<Rightarrow> state" where
  "confirmPaypalPayment_then s =
     s\<lparr> isExecutingPaypalPayment := False, dialogOpen := False, success := Some True,
        usd := '''', successMessage := Some '''' \<rparr>"

definition confirmPaypalPayment_catch :: "apiFieldError list option \<Rightarrow> state \<Rightarrow> state" where
  "confirmPaypalPayment_catch error s =
     s\<lparr> submitting := False, errors := Some (pathOrErrors error) \<rparr>"

definition payment :: "state \<Rightarrow> state \<times> call list" where
  "payment s =
     (s\<lparr> submitting := True, errors := Some [] \<rparr>,
      [StagePaypalPayment ''https://cloud.linode.com/billing'' ''https://cloud.linode.com/billing''
         (toFixed2 (toNumber (usd s)))])"

definition payment_then :: "string \<Rightarrow> state \<Rightarrow> state" where
  "payment_then data_payment_id s = s\<lparr> submitting := False, paymentID := data_payment_id \<rparr>"

definition payment_catch :: "apiFieldError list option \<Rightarrow> state \<Rightarrow> state" where
  "payment_catch error s = s\<lparr> submitting := False, errors := Some (pathOrErrors error) \<rparr>"

definition onAuthorize :: "string \<Rightarrow> state \<Rightarrow> state" where
  "onAuthorize data_payerID s = s\<lparr> dialogOpen := True, payerID := data_payerID \<rparr>"

definition onCancel :: "state \<Rightarrow> state" where
  "onCancel s = s\<lparr> success := Some True, successMessage := Some ''Payment Cancelled'' \<rparr>"

subsection \<open>What the panel renders\<close>

text \<open>
  The success notice of \<^verbatim>\<open>renderForm\<close>: shown when \<^verbatim>\<open>success\<close> is true, with
  \<^verbatim>\<open>successMessage\<close> when that is a non-empty string and the standard text otherwise.
\<close>

definition successNotice :: "state \<Rightarrow> string option" where
  "successNotice s =
     (if success s = Some True then
        (case successMessage s of
           None \<Rightarrow> Some ''Payment successfully submitted.''
         | Some m \<Rightarrow> if m = '''' then Some ''Payment successfully submitted.'' else Some m)
      else None)"

subsection \<open>Events and runs\<close>

text \<open>
  Everything that can happen to the component: a lifecycle call, an action of the user on
  a rendered control, a callback of the PayPal button, the response of the gateway to a
  request.
\<close>

datatype event =
    ComponentDidUpdate bool
  | HandleTypeChange paymentType
  | HandleUSDChange string
  | HandleCCVChange string
  | SubmitForm
  | SubmitFormThen
  | SubmitFormCatch "apiFieldError list option"
  | ResetForm
  | CloseDialog
  | ConfirmPaypalPayment
  | ConfirmPaypalPaymentThen
  | ConfirmPaypalPaymentCatch "apiFieldError list option"
  | Payment
  | PaymentThen string
  | PaymentCatch "apiFieldError list option"
  | OnAuthorize string
  | OnCancel

fun step :: "state \<Rightarrow> event \<Rightarrow> state \<times> call list" where
  "step s (ComponentDidUpdate b) = (componentDidUpdate b s, [])"
| "step s (HandleTypeChange v) = (handleTypeChange v s, [])"
| "step s (HandleUSDChange v) = (handleUSDChange v s, [])"
| "step s (HandleCCVChange v) = (handleCCVChange v s, [])"
| "step s SubmitForm = submitForm s"
| "step s SubmitFormThen = (submitForm_then s, [])"
| "step s (SubmitFormCatch error) = (submitForm_catch error s, [])"
| "step s ResetForm = (resetForm s, [])"
| "step s CloseDialog = (closeDialog s, [])"
| "step s ConfirmPaypalPayment = confirmPaypalPayment s"
| "step s ConfirmPaypalPaymentThen = (confirmPaypalPayment_then s, [])"
| "step s (ConfirmPaypalPaymentCatch error) = (confirmPaypalPayment_catch error s, [])"
| "step s Payment = payment s"
| "step s (PaymentThen d) = (payment_then d s, [])"
| "step s (PaymentCatch error) = (payment_catch error s, [])"
| "step s (OnAuthorize d) = (onAuthorize d s, [])"
| "step s OnCancel = (onCancel s, [])"

text \<open>
  Modelled from the spec: the component \<^verbatim>\<open>ConfirmationDialog\<close>
  (\<^verbatim>\<open>src/components/ConfirmationDialog\<close>, whose source is not at hand). The
  specification describes it as a pure gating component that exposes the confirm and
  cancel callbacks and has no state of its own beyond open/closed, driven entirely by the
  controller's state: its actions can be used while it is open, and only then.
\<close>

definition dialogActionsAvailable :: "bool \<Rightarrow> bool" where
  "dialogActionsAvailable isOpen = isOpen"

text \<open>
  Which controls \<^verbatim>\<open>renderForm\<close>, \<^verbatim>\<open>renderActions\<close> and \<^verbatim>\<open>dialogActions\<close> offer in
  a state: the PayPal radio button once the script is loaded, the CCV field for a credit
  card, the primary button unless the PayPal button takes its place, and the two buttons
  of the confirmation dialog, which is rendered with \<^verbatim>\<open>open={this.state.dialogOpen}\<close>.
  The account is taken to be authorized (otherwise \<^verbatim>\<open>render\<close> offers no control).
  Nothing else is restricted: callbacks of the PayPal button, responses of the gateway and
  lifecycle calls may come at any time, and neither the \<^verbatim>\<open>loading\<close> property of a
  button nor the dialog covering the form is taken to keep the user from a control. The
  runs considered are therefore at least those the browser can produce.
\<close>

fun enabled :: "state \<Rightarrow> event \<Rightarrow> bool" where
  "enabled s (HandleTypeChange v) = (v = CREDIT_CARD \<or> showPaypal s)"
| "enabled s (HandleCCVChange v) = (type s = CREDIT_CARD)"
| "enabled s SubmitForm = (\<not> (type s = PAYPAL \<and> showPaypal s))"
| "enabled s CloseDialog = dialogActionsAvailable (dialogOpen s)"
| "enabled s ConfirmPaypalPayment = dialogActionsAvailable (dialogOpen s)"
| "enabled s _ = True"

text \<open>
  A run is a sequence of events from some state; it is feasible when every event is
  offered in the state in which it happens. \<open>calls\<close> lists the requests a run sends, in
  order.
\<close>

fun feasible :: "state \<Rightarrow> event list \<Rightarrow> bool" where
  "feasible s [] = True"
| "feasible s (e # es) = (enabled s e \<and> feasible (fst (step s e)) es)"

definition run :: "state \<Rightarrow> event list \<Rightarrow> state" where
  "run s es = foldl (\<lambda>s e. fst (step s e)) s es"

fun calls :: "state \<Rightarrow> event list \<Rightarrow> call list" where
  "calls s [] = []"
| "calls s (e # es) = snd (step s e) @ calls (fst (step s e)) es"

text \<open>The payer the PayPal button has authorized last, if it has authorized any.\<close>

definition lastAuthorize :: "event list \<Rightarrow> string option" where
  "lastAuthorize es =
     foldl (\<lambda>acc e. case e of OnAuthorize d \<Rightarrow> Some d | _ \<Rightarrow> acc) None es"

text \<open>The values \<^verbatim>\<open>successMessage\<close> is ever given.\<close>

definition messages :: "string option set" where
  "messages = {None, Some '''', Some ''Payment Cancelled''}"

section \<open>Auxiliary facts\<close>

lemmas handler_defs =
  componentDidUpdate_def handleTypeChange_def handleUSDChange_def handleCCVChange_def
  submitForm_def submitForm_then_def submitForm_catch_def resetForm_def closeDialog_def
  confirmPaypalPayment_def confirmPaypalPayment_then_def confirmPaypalPayment_catch_def
  payment_def payment_then_def payment_catch_def onAuthorize_def onCancel_def

subsection \<open>Values of the number model\<close>

lemma ilog2_10: "ilog2 10 = 3"
  by code_simp

lemma ilog2_5: "ilog2 5 = 2"
  by code_simp

lemma ilog2_3: "ilog2 3 = 1"
  by code_simp

lemma toDouble_10: "toDouble 10 = Finite 10"
  by (simp add: toDouble_def binaryExponent_def pow2_def roundTiesToEven_def ilog2_10)

lemma toDouble_m5: "toDouble (- 5) = Finite (- 5)"
  by (simp add: toDouble_def binaryExponent_def pow2_def roundTiesToEven_def ilog2_5)

lemma toDouble_3: "toDouble 3 = Finite 3"
  by (simp add: toDouble_def binaryExponent_def pow2_def roundTiesToEven_def ilog2_3)

lemma trim_10_00: "trimString ''10.00'' = ''10.00''"
  by code_simp

lemma nonDecimal_10_00: "nonDecimalIntegerLiteral ''10.00'' = None"
  by code_simp

lemma literal_10_00: "strUnsignedDecimalLiteral ''10.00'' = Some 10"
  by code_simp

lemma toNumber_10_00: "toNumber ''10.00'' = Finite 10"
  by (simp add: toNumber_def trim_10_00 nonDecimal_10_00 strDecimalLiteral_def literal_10_00
      toDouble_10)

lemma toFixed2_10: "toFixed2 (Finite 10) = ''10.00''"
  by code_simp

lemma amount_10_00: "toFixed2 (toNumber ''10.00'') = ''10.00''"
  by (simp add: toNumber_10_00 toFixed2_10)

lemma toNumber_abc: "toNumber ''abc'' = NaN"
  by code_simp

lemma toFixed2_NaN: "toFixed2 NaN = ''NaN''"
  by (simp add: toFixed2_def)

lemma trim_m5: "trimString ''-5'' = ''-5''"
  by code_simp

lemma nonDecimal_m5: "nonDecimalIntegerLiteral ''-5'' = None"
  by code_simp

lemma literal_5: "strUnsignedDecimalLiteral ''5'' = Some 5"
  by code_simp

lemma toNumber_m5: "toNumber ''-5'' = Finite (- 5)"
  by (simp add: toNumber_def trim_m5 nonDecimal_m5 strDecimalLiteral_def literal_5 toDouble_m5)

lemma toFixed2_m5: "toFixed2 (Finite (- 5)) = ''-5.00''"
  by code_simp

lemma parseInt10_10_00: "parseInt10 ''10.00'' = Finite 10"
proof -
  have "trimStart ''10.00'' = ''10.00''" by code_simp
  moreover have "takeWhile (isDigit 10) ''10.00'' = ''10''" by code_simp
  moreover have "digitsValue 10 ''10'' = 10" by code_simp
  ultimately show ?thesis by (simp add: parseInt10_def toDouble_10)
qed

lemma parseInt10_3: "parseInt10 ''3'' = Finite 3"
proof -
  have "trimStart ''3'' = ''3''" by code_simp
  moreover have "takeWhile (isDigit 10) ''3'' = ''3''" by code_simp
  moreover have "digitsValue 10 ''3'' = 3" by code_simp
  ultimately show ?thesis by (simp add: parseInt10_def toDouble_3)
qed

lemma parseInt10_abc: "parseInt10 ''abc'' = NaN"
  by code_simp

subsection \<open>Runs\<close>

lemma run_Nil: "run s [] = s"
  by (simp add: run_def)

lemma run_Cons: "run s (e # es) = run (fst (step s e)) es"
  by (simp add: run_def)

lemma run_snoc: "run s (es @ [e]) = fst (step (run s es) e)"
  by (simp add: run_def)

lemma feasible_append: "feasible s (es @ es') = (feasible s es \<and> feasible (run s es) es')"
  by (induction es arbitrary: s) (simp_all add: run_Nil run_Cons)

lemma lastAuthorize_Nil: "lastAuthorize [] = None"
  by (simp add: lastAuthorize_def)

lemma lastAuthorize_snoc:
  "lastAuthorize (es @ [e]) = (case e of OnAuthorize d \<Rightarrow> Some d | _ \<Rightarrow> lastAuthorize es)"
  by (cases e) (simp_all add: lastAuthorize_def)

lemma lastAuthorize_mem: "lastAuthorize es = Some p \<Longrightarrow> OnAuthorize p \<in> set es"
  by (induction es rule: rev_induct)
     (auto simp: lastAuthorize_Nil lastAuthorize_snoc split: event.splits)

lemmas eval_simps =
  run_Nil run_Cons handler_defs initialState_def Let_def pathOrErrors_def successNotice_def
  dialogActionsAvailable_def parseInt10_10_00 parseInt10_3 parseInt10_abc numberGE_def
  amount_10_00

subsection \<open>What one event does to a single field\<close>

lemma payerID_step:
  "payerID (fst (step s e)) = (case e of OnAuthorize d \<Rightarrow> d | _ \<Rightarrow> payerID s)"
  by (cases e) (simp_all add: handler_defs Let_def)

lemma paymentID_step:
  "paymentID (fst (step s e)) = (case e of PaymentThen d \<Rightarrow> d | _ \<Rightarrow> paymentID s)"
  by (cases e) (simp_all add: handler_defs Let_def)

lemma dialogOpen_step:
  "dialogOpen (fst (step s e)) =
     (case e of OnAuthorize d \<Rightarrow> True | CloseDialog \<Rightarrow> False
      | ConfirmPaypalPaymentThen \<Rightarrow> False | _ \<Rightarrow> dialogOpen s)"
  by (cases e) (simp_all add: handler_defs Let_def)

lemma paypalSubmitEnabled_step:
  "paypalSubmitEnabled s \<Longrightarrow> paypalSubmitEnabled (fst (step s e))"
  by (cases e) (simp_all add: handler_defs Let_def)

lemma paypalSubmitEnabled_run:
  "paypalSubmitEnabled s \<Longrightarrow> paypalSubmitEnabled (run s es)"
  by (induction es arbitrary: s) (simp_all add: run_Nil run_Cons paypalSubmitEnabled_step)

lemma execute_step:
  "ExecutePaypalPayment payer pid \<in> set (snd (step s e)) \<Longrightarrow>
     e = ConfirmPaypalPayment \<and> payer = payerID s \<and> pid = paymentID s"
  by (cases e) (simp_all add: handler_defs Let_def split: if_splits)

lemma step_at_most_one_call: "length (snd (step s e)) \<le> 1"
  by (cases e) (simp_all add: handler_defs Let_def)

text \<open>
  The dialog is opened by \<^verbatim>\<open>onAuthorize\<close> alone, which also stores the payer: while
  the dialog is open, the stored payer is the one authorized last.
\<close>

lemma dialog_needs_authorize:
  "dialogOpen (run initialState es) \<Longrightarrow>
     lastAuthorize es = Some (payerID (run initialState es))"
proof (induction es rule: rev_induct)
  case Nil
  then show ?case by (simp add: run_Nil initialState_def)
next
  case (snoc e es)
  have "dialogOpen (fst (step (run initialState es) e))"
    using snoc.prems by (simp only: run_snoc)
  then have "case e of OnAuthorize d \<Rightarrow> True | CloseDialog \<Rightarrow> False
      | ConfirmPaypalPaymentThen \<Rightarrow> False | _ \<Rightarrow> dialogOpen (run initialState es)"
    by (simp only: dialogOpen_step)
  with snoc.IH show ?case
    unfolding run_snoc payerID_step lastAuthorize_snoc
    by (cases e) simp_all
qed

lemma successMessage_step:
  "successMessage s \<in> messages \<Longrightarrow> successMessage (fst (step s e)) \<in> messages"
  by (cases e) (simp_all add: handler_defs Let_def messages_def)

lemma successMessage_run: "successMessage (run initialState es) \<in> messages"
  by (induction es rule: rev_induct)
     (simp_all add: run_Nil run_snoc successMessage_step, simp add: initialState_def messages_def)

lemma successNotice_run:
  "successNotice (run initialState es) \<in>
     {None, Some ''Payment Cancelled'', Some ''Payment successfully submitted.''}"
  using successMessage_run [of es]
  by (auto simp: successNotice_def messages_def)

section \<open>The claims\<close>

subsection \<open>C1: execute only after authorization and confirmation\<close>

text \<open>
  C1. In every feasible run from the initial state, an execute request
  (\<^verbatim>\<open>executePaypalPayment\<close>) is sent only by the user's confirmation in the open
  confirmation dialog, after the PayPal button's authorization callback has delivered a
  payer id, and it carries the payer id delivered last. The authorization callback itself
  sends no request.
\<close>

theorem execute_only_after_authorize_and_confirm:
  "(feasible initialState (es @ [e])
      \<and> ExecutePaypalPayment payer pid \<in> set (snd (step (run initialState es) e))
    \<longrightarrow> e = ConfirmPaypalPayment \<and> dialogOpen (run initialState es)
        \<and> lastAuthorize es = Some payer \<and> OnAuthorize payer \<in> set es)
   \<and> snd (step s (OnAuthorize d)) = []"
proof (intro conjI impI)
  assume a: "feasible initialState (es @ [e])
      \<and> ExecutePaypalPayment payer pid \<in> set (snd (step (run initialState es) e))"
  then have e: "e = ConfirmPaypalPayment" and p: "payer = payerID (run initialState es)"
    using execute_step by blast+
  from a have "enabled (run initialState es) e"
    by (simp add: feasible_append)
  with e have d: "dialogOpen (run initialState es)"
    by (simp add: dialogActionsAvailable_def)
  then have l: "lastAuthorize es = Some payer"
    using dialog_needs_authorize p by simp
  show "e = ConfirmPaypalPayment" by (rule e)
  show "dialogOpen (run initialState es)" by (rule d)
  show "lastAuthorize es = Some payer" by (rule l)
  show "OnAuthorize payer \<in> set es" by (rule lastAuthorize_mem [OF l])
next
  show "snd (step s (OnAuthorize d)) = []"
    by simp
qed

theorem execute_only_after_authorize_and_confirm_witness:
  "feasible initialState
     ([ComponentDidUpdate True, HandleTypeChange PAYPAL, HandleUSDChange ''10.00'', Payment,
       PaymentThen ''PAY-1'', OnAuthorize ''PAYER-1''] @ [ConfirmPaypalPayment])
   \<and> ExecutePaypalPayment ''PAYER-1'' ''PAY-1''
       \<in> set (snd (step (run initialState
             [ComponentDidUpdate True, HandleTypeChange PAYPAL, HandleUSDChange ''10.00'',
              Payment, PaymentThen ''PAY-1'', OnAuthorize ''PAYER-1'']) ConfirmPaypalPayment))
   \<and> lastAuthorize
        [ComponentDidUpdate True, HandleTypeChange PAYPAL, HandleUSDChange ''10.00'', Payment,
         PaymentThen ''PAY-1'', OnAuthorize ''PAYER-1''] = Some ''PAYER-1''
   \<and> snd (step initialState (OnAuthorize ''PAYER-1'')) = []"
  using execute_only_after_authorize_and_confirm
    [of "[ComponentDidUpdate True, HandleTypeChange PAYPAL, HandleUSDChange ''10.00'', Payment,
          PaymentThen ''PAY-1'', OnAuthorize ''PAYER-1'']" ConfirmPaypalPayment
        "''PAYER-1''" "''PAY-1''" initialState "''PAYER-1''"]
  by (simp add: eval_simps)

subsection \<open>C2: a blank draft is rejected without a request\<close>

text \<open>
  C2. For every draft whose amount string is blank, or whose payment type is the credit
  card and whose CCV string is blank, \<^verbatim>\<open>submitForm\<close> sends no request
  (\<^verbatim>\<open>makePayment\<close> is not called) and only sets \<^verbatim>\<open>errors\<close>, to a non-empty list
  with one entry per blank field, addressed by the field's name. Blank is the empty
  string: it is what the message \<^verbatim>\<open>Amount cannot be blank.\<close> is attached to.
\<close>

theorem blank_draft_rejected_without_call:
  assumes "usd s = '''' \<or> (type s = CREDIT_CARD \<and> ccv s = '''')"
  shows "snd (submitForm s) = []
    \<and> (\<exists>errs. fst (submitForm s) = s\<lparr> errors := Some errs \<rparr> \<and> errs \<noteq> []
         \<and> map field errs =
             (if usd s = '''' then [Some ''usd''] else [])
             @ (if ccv s = '''' then [Some ''ccv''] else []))"
  using assms by (auto simp: submitForm_def Let_def)

theorem blank_draft_rejected_without_call_witness:
  "(usd (initialState\<lparr> usd := ''10.00'' \<rparr>) = ''''
      \<or> (type (initialState\<lparr> usd := ''10.00'' \<rparr>) = CREDIT_CARD
          \<and> ccv (initialState\<lparr> usd := ''10.00'' \<rparr>) = ''''))
   \<and> snd (submitForm (initialState\<lparr> usd := ''10.00'' \<rparr>)) = []
   \<and> map field (the (errors (fst (submitForm (initialState\<lparr> usd := ''10.00'' \<rparr>)))))
       = [Some ''ccv'']"
  using blank_draft_rejected_without_call [of "initialState\<lparr> usd := ''10.00'' \<rparr>"]
  by (auto simp: initialState_def)

subsection \<open>C3: what validation checks\<close>

text \<open>
  C3 does not hold as stated: a non-empty amount that is no positive number passes
  validation. With the CCV \<^verbatim>\<open>123\<close>, the amount \<^verbatim>\<open>abc\<close> (which converts to NaN) is
  sent to the gateway as \<^verbatim>\<open>NaN\<close>, and the amount \<^verbatim>\<open>-5\<close> as \<^verbatim>\<open>-5.00\<close>; no error
  is set.
\<close>

theorem submit_accepts_non_positive_amount:
  "usd (initialState\<lparr> usd := ''abc'', ccv := ''123'' \<rparr>) \<noteq> ''''
   \<and> toNumber ''abc'' = NaN
   \<and> submitForm (initialState\<lparr> usd := ''abc'', ccv := ''123'' \<rparr>)
       = (initialState\<lparr> usd := ''abc'', ccv := ''123'', submitting := True, errors := None,
                         successMessage := Some '''' \<rparr>,
          [MakePayment ''NaN'' ''123''])
   \<and> toNumber ''-5'' = Finite (- 5)
   \<and> submitForm (initialState\<lparr> usd := ''-5'', ccv := ''123'' \<rparr>)
       = (initialState\<lparr> usd := ''-5'', ccv := ''123'', submitting := True, errors := None,
                         successMessage := Some '''' \<rparr>,
          [MakePayment ''-5.00'' ''123''])"
  by (simp add: submitForm_def initialState_def toNumber_abc toNumber_m5 toFixed2_NaN toFixed2_m5)

text \<open>
  C3, amended. On submit, validation accepts the draft if and only if the amount string
  and the CCV string are both non-empty, whatever the payment type, and checks nothing
  else about the amount. An accepted draft sends exactly one \<^verbatim>\<open>makePayment\<close> request,
  with the amount as \<^verbatim>\<open>(+usd).toFixed(2)\<close>, and sets \<^verbatim>\<open>submitting\<close>; a rejected one
  sends no request and only sets \<^verbatim>\<open>errors\<close>, to a non-empty list with one entry per
  empty field, addressed \<^verbatim>\<open>usd\<close> or \<^verbatim>\<open>ccv\<close>. So a PayPal draft with an amount
  and an empty CCV is rejected with the \<^verbatim>\<open>ccv\<close> entry.
\<close>

theorem submit_validates_emptiness_only:
  "snd (submitForm s) =
     (if usd s \<noteq> '''' \<and> ccv s \<noteq> '''' then [MakePayment (toFixed2 (toNumber (usd s))) (ccv s)]
      else [])
   \<and> (errors (fst (submitForm s)) = None) = (usd s \<noteq> '''' \<and> ccv s \<noteq> '''')
   \<and> submitting (fst (submitForm s)) = (submitting s \<or> (usd s \<noteq> '''' \<and> ccv s \<noteq> ''''))
   \<and> fst (submitForm s) =
       (if usd s \<noteq> '''' \<and> ccv s \<noteq> ''''
        then s\<lparr> submitting := True, errors := None, successMessage := Some '''' \<rparr>
        else s\<lparr> errors := Some
               ((if usd s = ''''
                 then [\<lparr> field = Some ''usd'', reason = ''Amount cannot be blank.'' \<rparr>] else [])
                @ (if ccv s = ''''
                   then [\<lparr> field = Some ''ccv'', reason = ''CCV cannot be blank.'' \<rparr>] else [])) \<rparr>)
   \<and> errors (fst (submitForm s)) \<noteq> Some []
   \<and> submitForm (s\<lparr> type := PAYPAL, usd := ''10.00'', ccv := '''' \<rparr>)
       = (s\<lparr> type := PAYPAL, usd := ''10.00'', ccv := '''',
             errors := Some [\<lparr> field = Some ''ccv'', reason = ''CCV cannot be blank.'' \<rparr>] \<rparr>,
          [])"
  by (simp add: submitForm_def Let_def)

subsection \<open>C4: requests in flight\<close>

text \<open>
  C4 does not hold as stated: the handlers do not look at the busy flags. Invoking
  \<^verbatim>\<open>submitForm\<close> on the draft \<^verbatim>\<open>10.00\<close>/\<^verbatim>\<open>123\<close> again while \<^verbatim>\<open>submitting\<close>
  is set sends a second \<^verbatim>\<open>makePayment\<close> request, invoking
  \<^verbatim>\<open>confirmPaypalPayment\<close> again while \<^verbatim>\<open>isExecutingPaypalPayment\<close> is set sends a
  second execute request, and invoking \<^verbatim>\<open>payment\<close> again while \<^verbatim>\<open>submitting\<close> is
  set sends a second stage request.
\<close>

theorem resubmit_in_flight_sends_second_request:
  "submitting (run initialState
      [HandleUSDChange ''10.00'', HandleCCVChange ''123'', SubmitForm])
   \<and> calls initialState
        [HandleUSDChange ''10.00'', HandleCCVChange ''123'', SubmitForm, SubmitForm]
       = [MakePayment ''10.00'' ''123'', MakePayment ''10.00'' ''123'']
   \<and> isExecutingPaypalPayment (run initialState
        [ComponentDidUpdate True, HandleTypeChange PAYPAL, HandleUSDChange ''10.00'', Payment,
         PaymentThen ''PAY-1'', OnAuthorize ''PAYER-1'', ConfirmPaypalPayment])
   \<and> calls initialState
        [ComponentDidUpdate True, HandleTypeChange PAYPAL, HandleUSDChange ''10.00'', Payment,
         PaymentThen ''PAY-1'', OnAuthorize ''PAYER-1'', ConfirmPaypalPayment,
         ConfirmPaypalPayment]
       = [StagePaypalPayment ''https://cloud.linode.com/billing''
            ''https://cloud.linode.com/billing'' ''10.00'',
          ExecutePaypalPayment ''PAYER-1'' ''PAY-1'',
          ExecutePaypalPayment ''PAYER-1'' ''PAY-1'']
   \<and> submitting (run initialState
        [ComponentDidUpdate True, HandleTypeChange PAYPAL, HandleUSDChange ''10.00'', Payment])
   \<and> calls initialState
        [ComponentDidUpdate True, HandleTypeChange PAYPAL, HandleUSDChange ''10.00'', Payment,
         Payment]
       = [StagePaypalPayment ''https://cloud.linode.com/billing''
            ''https://cloud.linode.com/billing'' ''10.00'',
          StagePaypalPayment ''https://cloud.linode.com/billing''
            ''https://cloud.linode.com/billing'' ''10.00'']"
  by (simp add: eval_simps)

text \<open>
  C4, amended. Every invocation of \<^verbatim>\<open>submitForm\<close> that passes validation sends
  exactly one \<^verbatim>\<open>makePayment\<close> request, every invocation of
  \<^verbatim>\<open>confirmPaypalPayment\<close> exactly one execute request and every invocation of
  \<^verbatim>\<open>payment\<close> exactly one stage request, and each sets its busy flag; what is sent
  does not depend on the busy flags, and no event sends more than one request.
\<close>

theorem handlers_ignore_busy_flags:
  "snd (submitForm (s\<lparr> submitting := b \<rparr>)) = snd (submitForm s)
   \<and> snd (submitForm s) =
       (if usd s \<noteq> '''' \<and> ccv s \<noteq> '''' then [MakePayment (toFixed2 (toNumber (usd s))) (ccv s)]
        else [])
   \<and> snd (confirmPaypalPayment (s\<lparr> isExecutingPaypalPayment := b \<rparr>))
       = [ExecutePaypalPayment (payerID s) (paymentID s)]
   \<and> isExecutingPaypalPayment (fst (confirmPaypalPayment s))
   \<and> snd (payment (s\<lparr> submitting := b \<rparr>))
       = [StagePaypalPayment ''https://cloud.linode.com/billing''
            ''https://cloud.linode.com/billing'' (toFixed2 (toNumber (usd s)))]
   \<and> submitting (fst (payment s))
   \<and> length (snd (step s e)) \<le> 1
   \<and> submitting (fst (submitForm (s\<lparr> submitting := b \<rparr>)))
       = (b \<or> (usd s \<noteq> '''' \<and> ccv s \<noteq> ''''))
   \<and> fst (submitForm (s\<lparr> usd := c # cs, ccv := c' # cs' \<rparr>))
       = s\<lparr> usd := c # cs, ccv := c' # cs', submitting := True, errors := None,
            successMessage := Some '''' \<rparr>
   \<and> fst (confirmPaypalPayment s) = s\<lparr> isExecutingPaypalPayment := True \<rparr>
   \<and> fst (payment s) = s\<lparr> submitting := True, errors := Some [] \<rparr>"
  using step_at_most_one_call [of s e]
  by (simp add: submitForm_def Let_def confirmPaypalPayment_def payment_def)

subsection \<open>C5: the credit card scenario\<close>

text \<open>
  C5. For the draft with amount \<^verbatim>\<open>10.00\<close>, payment type credit card and CCV
  \<^verbatim>\<open>123\<close>, \<^verbatim>\<open>submitForm\<close> sends exactly one request, \<^verbatim>\<open>makePayment\<close> with
  \<^verbatim>\<open>{usd: "10.00", ccv: "123"}\<close>, and when that request succeeds the panel is in its
  success state: not submitting, no errors, \<^verbatim>\<open>success\<close> set, and the notice
  \<^verbatim>\<open>Payment successfully submitted.\<close> shown.
\<close>

theorem direct_card_scenario:
  assumes "usd s = ''10.00''" and "type s = CREDIT_CARD" and "ccv s = ''123''"
  shows "snd (submitForm s) = [MakePayment ''10.00'' ''123'']
    \<and> submitting (fst (submitForm s))
    \<and> \<not> submitting (submitForm_then (fst (submitForm s)))
    \<and> success (submitForm_then (fst (submitForm s))) = Some True
    \<and> errors (submitForm_then (fst (submitForm s))) = None
    \<and> successNotice (submitForm_then (fst (submitForm s))) = Some ''Payment successfully submitted.''"
  using assms by (simp add: submitForm_def Let_def submitForm_then_def successNotice_def amount_10_00)

theorem direct_card_scenario_witness:
  "usd (run initialState [HandleUSDChange ''10.00'', HandleCCVChange ''123'']) = ''10.00''
   \<and> type (run initialState [HandleUSDChange ''10.00'', HandleCCVChange ''123'']) = CREDIT_CARD
   \<and> ccv (run initialState [HandleUSDChange ''10.00'', HandleCCVChange ''123'']) = ''123''
   \<and> calls initialState [HandleUSDChange ''10.00'', HandleCCVChange ''123'', SubmitForm, SubmitFormThen]
     = [MakePayment ''10.00'' ''123'']
   \<and> feasible initialState
        [HandleUSDChange ''10.00'', HandleCCVChange ''123'', SubmitForm, SubmitFormThen]
   \<and> successNotice (run initialState
        [HandleUSDChange ''10.00'', HandleCCVChange ''123'', SubmitForm, SubmitFormThen])
       = Some ''Payment successfully submitted.''"
  using direct_card_scenario
    [of "run initialState [HandleUSDChange ''10.00'', HandleCCVChange ''123'']"]
  by (simp add: eval_simps)

subsection \<open>C6: a failed execute request\<close>

text \<open>
  C6, at the run in which the stage request succeeds, the PayPal button authorizes, the
  user confirms and the execute request fails. One execute request has been sent, with
  the staged payment id and the authorized payer id, and the amount is kept; but the
  \<^verbatim>\<open>catch\<close> handler resets \<^verbatim>\<open>submitting\<close> instead of what \<^verbatim>\<open>then\<close> resets, so
  the confirmation dialog is still open.
\<close>

theorem execute_failure_leaves_dialog_open:
  "feasible initialState
     [ComponentDidUpdate True, HandleTypeChange PAYPAL, HandleUSDChange ''10.00'', Payment,
      PaymentThen ''PAY-1'', OnAuthorize ''PAYER-1'', ConfirmPaypalPayment,
      ConfirmPaypalPaymentCatch None]
   \<and> calls initialState
        [ComponentDidUpdate True, HandleTypeChange PAYPAL, HandleUSDChange ''10.00'', Payment,
         PaymentThen ''PAY-1'', OnAuthorize ''PAYER-1'', ConfirmPaypalPayment,
         ConfirmPaypalPaymentCatch None]
       = [StagePaypalPayment ''https://cloud.linode.com/billing''
            ''https://cloud.linode.com/billing'' ''10.00'',
          ExecutePaypalPayment ''PAYER-1'' ''PAY-1'']
   \<and> run initialState
        [ComponentDidUpdate True, HandleTypeChange PAYPAL, HandleUSDChange ''10.00'', Payment,
         PaymentThen ''PAY-1'', OnAuthorize ''PAYER-1'', ConfirmPaypalPayment,
         ConfirmPaypalPaymentCatch None]
       = \<lparr> type = PAYPAL, submitting = False, success = None, successMessage = None,
           errors = Some [\<lparr> field = None, reason = ''Unable to make a payment at this time.'' \<rparr>],
           usd = ''10.00'', ccv = '''', showPaypal = True, paymentID = ''PAY-1'',
           payerID = ''PAYER-1'', isExecutingPaypalPayment = True, paypalSubmitEnabled = True,
           dialogOpen = True \<rparr>"
  by (simp add: eval_simps)

subsection \<open>C7: cancelling while the execute request is in flight\<close>

text \<open>
  C7 does not hold as stated: when the user closes the dialog after confirming, while
  \<^verbatim>\<open>isExecutingPaypalPayment\<close> is set and the execute request is in flight, the
  notice shown is the plain \<^verbatim>\<open>Payment Cancelled\<close>.
\<close>

theorem cancel_while_executing_reports_cancelled:
  "feasible initialState
     [ComponentDidUpdate True, HandleTypeChange PAYPAL, HandleUSDChange ''10.00'', Payment,
      PaymentThen ''PAY-1'', OnAuthorize ''PAYER-1'', ConfirmPaypalPayment, CloseDialog]
   \<and> calls initialState
        [ComponentDidUpdate True, HandleTypeChange PAYPAL, HandleUSDChange ''10.00'', Payment,
         PaymentThen ''PAY-1'', OnAuthorize ''PAYER-1'', ConfirmPaypalPayment]
       = [StagePaypalPayment ''https://cloud.linode.com/billing''
            ''https://cloud.linode.com/billing'' ''10.00'',
          ExecutePaypalPayment ''PAYER-1'' ''PAY-1'']
   \<and> isExecutingPaypalPayment (run initialState
        [ComponentDidUpdate True, HandleTypeChange PAYPAL, HandleUSDChange ''10.00'', Payment,
         PaymentThen ''PAY-1'', OnAuthorize ''PAYER-1'', ConfirmPaypalPayment])
   \<and> successNotice (run initialState
        [ComponentDidUpdate True, HandleTypeChange PAYPAL, HandleUSDChange ''10.00'', Payment,
         PaymentThen ''PAY-1'', OnAuthorize ''PAYER-1'', ConfirmPaypalPayment, CloseDialog])
       = Some ''Payment Cancelled''"
  by (simp add: eval_simps)

text \<open>
  C7, amended. Closing the dialog always shows the notice \<^verbatim>\<open>Payment Cancelled\<close> and
  closes the dialog, whether or not an execute request is in flight; it sends nothing and
  leaves \<^verbatim>\<open>isExecutingPaypalPayment\<close> as it is. The panel has no notice for an unknown
  outcome: in every run, the success notice is absent, \<^verbatim>\<open>Payment Cancelled\<close> or
  \<^verbatim>\<open>Payment successfully submitted.\<close>
\<close>

theorem cancel_always_reports_cancelled:
  "successNotice (closeDialog s) = Some ''Payment Cancelled''
   \<and> \<not> dialogOpen (closeDialog s)
   \<and> isExecutingPaypalPayment (closeDialog s) = isExecutingPaypalPayment s
   \<and> snd (step s CloseDialog) = []
   \<and> successNotice (run initialState es)
       \<in> {None, Some ''Payment Cancelled'', Some ''Payment successfully submitted.''}"
  using successNotice_run [of es]
  by (simp add: closeDialog_def successNotice_def)

subsection \<open>C8: the staged payment\<close>

text \<open>
  C8 does not hold as stated: \<^verbatim>\<open>paymentID\<close> and \<^verbatim>\<open>payerID\<close> are never cleared.
  After a run that is completed by the execute response and then reset with
  \<^verbatim>\<open>resetForm\<close>, and after a run that is cancelled in the dialog, the state still holds
  both.
\<close>

theorem staged_payment_survives_the_run:
  "run initialState
     [ComponentDidUpdate True, HandleTypeChange PAYPAL, HandleUSDChange ''10.00'', Payment,
      PaymentThen ''PAY-1'', OnAuthorize ''PAYER-1'', ConfirmPaypalPayment,
      ConfirmPaypalPaymentThen, ResetForm]
     = \<lparr> type = CREDIT_CARD, submitting = False, success = None, successMessage = Some '''',
         errors = None, usd = '''', ccv = '''', showPaypal = True, paymentID = ''PAY-1'',
         payerID = ''PAYER-1'', isExecutingPaypalPayment = False, paypalSubmitEnabled = True,
         dialogOpen = False \<rparr>
   \<and> paymentID (run initialState
        [ComponentDidUpdate True, HandleTypeChange PAYPAL, HandleUSDChange ''10.00'', Payment,
         PaymentThen ''PAY-1'', OnAuthorize ''PAYER-1'', CloseDialog]) = ''PAY-1''
   \<and> payerID (run initialState
        [ComponentDidUpdate True, HandleTypeChange PAYPAL, HandleUSDChange ''10.00'', Payment,
         PaymentThen ''PAY-1'', OnAuthorize ''PAYER-1'', CloseDialog]) = ''PAYER-1''"
  by (simp add: eval_simps)

text \<open>
  C8, amended. \<^verbatim>\<open>paymentID\<close> is set by the stage response and \<^verbatim>\<open>payerID\<close> by the
  authorization callback, and no other event changes either: the execute response,
  a cancellation and \<^verbatim>\<open>resetForm\<close> keep both, until the next stage response or
  authorization overwrites them.
\<close>

theorem staged_payment_only_overwritten:
  "paymentID (fst (step s e)) = (case e of PaymentThen d \<Rightarrow> d | _ \<Rightarrow> paymentID s)
   \<and> payerID (fst (step s e)) = (case e of OnAuthorize d \<Rightarrow> d | _ \<Rightarrow> payerID s)
   \<and> paymentID (resetForm s) = paymentID s \<and> payerID (resetForm s) = payerID s
   \<and> paymentID (closeDialog s) = paymentID s \<and> payerID (closeDialog s) = payerID s
   \<and> paymentID (onCancel s) = paymentID s \<and> payerID (onCancel s) = payerID s
   \<and> paymentID (confirmPaypalPayment_then s) = paymentID s
   \<and> payerID (confirmPaypalPayment_then s) = payerID s
   \<and> paymentID (confirmPaypalPayment_catch error s) = paymentID s
   \<and> payerID (confirmPaypalPayment_catch error s) = payerID s"
  by (simp add: payerID_step paymentID_step resetForm_def closeDialog_def onCancel_def
      confirmPaypalPayment_then_def confirmPaypalPayment_catch_def)

subsection \<open>C9: the state after a failure\<close>

text \<open>
  C9, at a failed execute request. The \<^verbatim>\<open>catch\<close> handler of
  \<^verbatim>\<open>confirmPaypalPayment\<close> clears \<^verbatim>\<open>submitting\<close>, which the confirmation never
  set, and leaves \<^verbatim>\<open>isExecutingPaypalPayment\<close> set and the dialog as it was, whereas the
  \<^verbatim>\<open>then\<close> handler clears the flag and closes the dialog. In the run in which the
  user confirms and the request fails, the flag is set and the dialog open at the end.
\<close>

theorem execute_failure_keeps_busy_flag:
  "isExecutingPaypalPayment (confirmPaypalPayment_catch error (fst (confirmPaypalPayment s)))
   \<and> dialogOpen (confirmPaypalPayment_catch error (fst (confirmPaypalPayment s))) = dialogOpen s
   \<and> \<not> isExecutingPaypalPayment (confirmPaypalPayment_then (fst (confirmPaypalPayment s)))
   \<and> \<not> dialogOpen (confirmPaypalPayment_then (fst (confirmPaypalPayment s)))
   \<and> isExecutingPaypalPayment (run initialState
        [ComponentDidUpdate True, HandleTypeChange PAYPAL, HandleUSDChange ''10.00'', Payment,
         PaymentThen ''PAY-1'', OnAuthorize ''PAYER-1'', ConfirmPaypalPayment,
         ConfirmPaypalPaymentCatch (Some [\<lparr> field = None, reason = ''Payment declined.'' \<rparr>])])
   \<and> dialogOpen (run initialState
        [ComponentDidUpdate True, HandleTypeChange PAYPAL, HandleUSDChange ''10.00'', Payment,
         PaymentThen ''PAY-1'', OnAuthorize ''PAYER-1'', ConfirmPaypalPayment,
         ConfirmPaypalPaymentCatch (Some [\<lparr> field = None, reason = ''Payment declined.'' \<rparr>])])"
  by (simp add: eval_simps)

subsection \<open>C10: the PayPal submit flag\<close>

text \<open>
  C10. Once a change of the amount to a value whose \<^verbatim>\<open>parseInt\<close> is at least 5, made
  while the payment type is PayPal, has set \<^verbatim>\<open>paypalSubmitEnabled\<close>, the flag stays
  set whatever happens afterwards: a smaller amount, an amount that is no number, another
  payment type, \<^verbatim>\<open>resetForm\<close>, or any other sequence of events.
\<close>

theorem paypalSubmitEnabled_monotone:
  assumes "type s = PAYPAL" and "numberGE (parseInt10 v) 5"
  shows "paypalSubmitEnabled (handleUSDChange v s)
    \<and> paypalSubmitEnabled (run (handleUSDChange v s) es)"
proof -
  from assms have "paypalSubmitEnabled (handleUSDChange v s)"
    by (simp add: handleUSDChange_def)
  then show ?thesis
    by (simp add: paypalSubmitEnabled_run)
qed

theorem paypalSubmitEnabled_monotone_witness:
  "type (initialState\<lparr> type := PAYPAL \<rparr>) = PAYPAL
   \<and> numberGE (parseInt10 ''10.00'') 5
   \<and> \<not> paypalSubmitEnabled (initialState\<lparr> type := PAYPAL \<rparr>)
   \<and> paypalSubmitEnabled (run (handleUSDChange ''10.00'' (initialState\<lparr> type := PAYPAL \<rparr>))
        [HandleUSDChange ''3'', HandleUSDChange ''abc'', HandleTypeChange CREDIT_CARD, ResetForm])
   \<and> usd (run (handleUSDChange ''10.00'' (initialState\<lparr> type := PAYPAL \<rparr>))
        [HandleUSDChange ''3'', HandleUSDChange ''abc'', HandleTypeChange CREDIT_CARD, ResetForm])
       = ''''"
  using paypalSubmitEnabled_monotone [of "initialState\<lparr> type := PAYPAL \<rparr>" "''10.00''"
      "[HandleUSDChange ''3'', HandleUSDChange ''abc'', HandleTypeChange CREDIT_CARD, ResetForm]"]
  by (simp add: eval_simps)

end
